theory Spec2Isabelle
  imports Complex_Main
begin

section \<open>Numbers and vectors\<close>

text \<open>
  The program computes with Python floats and numpy arrays of floats. They are modelled
  by the real numbers: a comparison against a threshold and the four arithmetic
  operations are the exact ones, and rounding is not modelled. A 2-vector
  (\<^verbatim>\<open>np.array([x, y])\<close>) is a pair of reals.
\<close>

type_synonym vec2 = "real \<times> real"

definition vsub :: "vec2 \<Rightarrow> vec2 \<Rightarrow> vec2" where
  "vsub a b = (fst a - fst b, snd a - snd b)"

definition vadd :: "vec2 \<Rightarrow> vec2 \<Rightarrow> vec2" where
  "vadd a b = (fst a + fst b, snd a + snd b)"

definition vscale :: "real \<Rightarrow> vec2 \<Rightarrow> vec2" where
  "vscale k a = (k * fst a, k * snd a)"

text \<open>\<^verbatim>\<open>np.linalg.norm\<close> of a 2-vector.\<close>

definition norm2 :: "vec2 \<Rightarrow> real" where
  "norm2 v = sqrt ((fst v)\<^sup>2 + (snd v)\<^sup>2)"

text \<open>
  A distance that may be \<^verbatim>\<open>float('inf')\<close>: the initial distance to the hole, and the
  local \<^verbatim>\<open>dist\<close> of \<^verbatim>\<open>update\<close> when no hole position is set.
\<close>

datatype distance = Dist real | DistInf

fun dist_lt :: "distance \<Rightarrow> real \<Rightarrow> bool" where
  "dist_lt (Dist d) r = (d < r)"
| "dist_lt DistInf r = False"

text \<open>
  Python's slice \<^verbatim>\<open>xs[-n:]\<close>: the last \<open>n\<close> elements for positive \<open>n\<close> (all of them
  when the list is shorter), the whole list for \<open>n = 0\<close>, and \<^verbatim>\<open>xs[k:]\<close> for \<open>n = -k < 0\<close>.
\<close>

definition last_n :: "int \<Rightarrow> 'a list \<Rightarrow> 'a list" where
  "last_n n xs =
     (if n > 0 then drop (length xs - nat n) xs
      else if n = 0 then xs
      else drop (nat (- n)) xs)"

section \<open>Configuration (config.py)\<close>

definition HOLE_RADIUS_CM :: real where
  "HOLE_RADIUS_CM = 3.5"

definition HOLE_IN_TOLERANCE_CM :: real where
  "HOLE_IN_TOLERANCE_CM = 4.0"

definition BALL_STOPPED_THRESHOLD_CM :: real where
  "BALL_STOPPED_THRESHOLD_CM = 0.8"

definition BALL_STOPPED_FRAMES :: int where
  "BALL_STOPPED_FRAMES = 15"

definition HOLE_POSITIONS :: "vec2 list" where
  "HOLE_POSITIONS = [(45.0, 20.0), (15.0, 10.0), (50.0, 35.0), (10.0, 30.0), (30.0, 5.0)]"

definition OBSTACLES :: "(real \<times> real \<times> real) list" where
  "OBSTACLES = []"

definition MAX_PUTTS_PER_HOLE :: int where
  "MAX_PUTTS_PER_HOLE = 10"

definition TRACKING_SEARCH_MARGIN :: int where
  "TRACKING_SEARCH_MARGIN = 80"

definition BALL_MIN_RADIUS_PX :: real where
  "BALL_MIN_RADIUS_PX = 8"

definition BALL_MAX_RADIUS_PX :: real where
  "BALL_MAX_RADIUS_PX = 120"

definition BALL_HSV_LOWER :: "int \<times> int \<times> int" where
  "BALL_HSV_LOWER = (20, 80, 100)"

definition BALL_HSV_UPPER :: "int \<times> int \<times> int" where
  "BALL_HSV_UPPER = (32, 200, 200)"

definition WORLD_CORNERS :: "vec2 list" where
  "WORLD_CORNERS = [(0.0, 0.0), (60.0, 0.0), (60.0, 40.0), (0.0, 40.0)]"

section \<open>The mini-golf engine (pyScripts/game_engine.py)\<close>

text \<open>
  The status text is built with f-strings from a few values. Each message is a
  constructor that carries the values formatted into it:
  \<^item> \<open>StatusEmpty\<close>: the empty string of \<^verbatim>\<open>GameState.__init__\<close>;
  \<^item> \<open>StatusLevelPlay n\<close>: "Nivel n - A jugar!";
  \<^item> \<open>StatusCountdown r\<close>: "EMBOCADA! Siguiente nivel en r s";
  \<^item> \<open>StatusNotDetected\<close>: "Pelota no detectada";
  \<^item> \<open>StatusMoving d\<close>: "Pelota en movimiento... Dist: d cm";
  \<^item> \<open>StatusHitBall n\<close>: "Nivel n - Golpea la pelota!";
  \<^item> \<open>StatusMaxPutts\<close>: "Maximo de golpes alcanzado";
  \<^item> \<open>StatusPutts n d\<close>: "Golpes: n | Dist: d cm";
  \<^item> \<open>StatusHoleIn n\<close>: "EMBOCADA en n golpe(s)!!!";
  \<^item> \<open>StatusCompleted t\<close>: "PARTIDA COMPLETADA!! Puntuacion total: t";
  \<^item> \<open>StatusRestarted n\<close>: "Nivel n reiniciado".
\<close>

datatype status_msg =
    StatusEmpty
  | StatusLevelPlay int
  | StatusCountdown real
  | StatusNotDetected
  | StatusMoving distance
  | StatusHitBall int
  | StatusMaxPutts
  | StatusPutts int distance
  | StatusHoleIn int
  | StatusCompleted int
  | StatusRestarted int

record GameState =
  level :: int
  putts :: int
  total_score :: int
  status :: status_msg
  ball_world_pos :: "vec2 option"
  ball_image_pos :: "vec2 option"
  hole_position :: "vec2 option"
  obstacles :: "(real \<times> real \<times> real) list"
  is_ball_moving :: bool
  is_hole_in :: bool
  game_over :: bool
  distance_to_hole :: distance

text \<open>\<^verbatim>\<open>GameState.__init__\<close>.\<close>

definition GameState_init :: GameState where
  "GameState_init =
     \<lparr> level = 1, putts = 0, total_score = 0, status = StatusEmpty,
       ball_world_pos = None, ball_image_pos = None, hole_position = None,
       obstacles = OBSTACLES, is_ball_moving = False, is_hole_in = False,
       game_over = False, distance_to_hole = DistInf \<rparr>"

text \<open>
  The engine object: its \<^verbatim>\<open>state\<close> and its private attributes (the leading underscore
  of the source names is dropped).
\<close>

record MiniGolfEngine =
  state :: GameState
  stopped_frame_count :: int
  last_positions :: "vec2 list"
  max_history :: int
  level_start_time :: real
  hole_in_time :: real
  celebrating :: bool
  celebration_duration :: real

text \<open>\<^verbatim>\<open>MiniGolfEngine.__init__\<close>.\<close>

definition MiniGolfEngine_init :: MiniGolfEngine where
  "MiniGolfEngine_init =
     \<lparr> state = GameState_init, stopped_frame_count = 0, last_positions = [],
       max_history = BALL_STOPPED_FRAMES * 2, level_start_time = 0, hole_in_time = 0,
       celebrating = False, celebration_duration = 3.0 \<rparr>"

text \<open>
  \<^verbatim>\<open>_set_hole_for_level\<close>. Python's \<^verbatim>\<open>%\<close> with a positive divisor is never negative,
  as \<open>mod\<close> on \<open>int\<close>, so the index is in range of the five positions.
\<close>

definition set_hole_for_level :: "int \<Rightarrow> MiniGolfEngine \<Rightarrow> MiniGolfEngine" where
  "set_hole_for_level lvl e =
     (let idx = (lvl - 1) mod int (length HOLE_POSITIONS)
      in e\<lparr>state := (state e)\<lparr>hole_position := Some (HOLE_POSITIONS ! nat idx)\<rparr>\<rparr>)"

text \<open>
  The clock \<^verbatim>\<open>time.time()\<close> is an input: every operation that reads it takes the reading
  \<open>now\<close> as its first argument (one reading for each call of the operation).
\<close>

text \<open>\<^verbatim>\<open>start_game\<close>.\<close>

definition start_game :: "real \<Rightarrow> MiniGolfEngine \<Rightarrow> MiniGolfEngine" where
  "start_game now e =
     (let e1 = e\<lparr>state := GameState_init\<lparr>level := 1, total_score := 0\<rparr>\<rparr>;
          e2 = set_hole_for_level 1 e1
      in e2\<lparr>state := (state e2)\<lparr>status := StatusLevelPlay 1\<rparr>,
             level_start_time := now, celebrating := False\<rparr>)"

text \<open>The loop of \<^verbatim>\<open>_check_movement\<close> over consecutive samples, with its running maximum.\<close>

fun max_displacement :: "real \<Rightarrow> vec2 list \<Rightarrow> real" where
  "max_displacement m (p # q # ps) = max_displacement (max m (norm2 (vsub q p))) (q # ps)"
| "max_displacement m ps = m"

text \<open>\<^verbatim>\<open>_check_movement\<close>: returns the answer and the engine with its updated counter.\<close>

definition check_movement :: "MiniGolfEngine \<Rightarrow> bool \<times> MiniGolfEngine" where
  "check_movement e =
     (if int (length (last_positions e)) < BALL_STOPPED_FRAMES then (True, e)
      else
        let recent = last_n BALL_STOPPED_FRAMES (last_positions e);
            md = max_displacement 0 recent;
            e' = (if md < BALL_STOPPED_THRESHOLD_CM
                  then e\<lparr>stopped_frame_count := stopped_frame_count e + 1\<rparr>
                  else e\<lparr>stopped_frame_count := 0\<rparr>)
        in (stopped_frame_count e' < BALL_STOPPED_FRAMES, e'))"

text \<open>\<^verbatim>\<open>_hole_in\<close>.\<close>

definition hole_in :: "real \<Rightarrow> MiniGolfEngine \<Rightarrow> MiniGolfEngine" where
  "hole_in now e =
     (let e1 = e\<lparr>state := (state e)\<lparr>is_hole_in := True\<rparr>,
                  celebrating := True, hole_in_time := now\<rparr>;
          e2 = (if putts (state e1) = 0
                then e1\<lparr>state := (state e1)\<lparr>putts := 1\<rparr>\<rparr> else e1);
          score = putts (state e2)
      in e2\<lparr>state := (state e2)\<lparr>total_score := total_score (state e2) + score,
                                  status := StatusHoleIn (putts (state e2))\<rparr>\<rparr>)"

text \<open>\<^verbatim>\<open>_advance_level\<close>.\<close>

definition advance_level :: "real \<Rightarrow> MiniGolfEngine \<Rightarrow> MiniGolfEngine" where
  "advance_level now e =
     (let e1 = e\<lparr>state := (state e)\<lparr>level := level (state e) + 1, putts := 0,
                                 is_hole_in := False\<rparr>,
                  stopped_frame_count := 0, last_positions := []\<rparr>
      in if level (state e1) > int (length HOLE_POSITIONS)
         then e1\<lparr>state := (state e1)\<lparr>game_over := True,
                     status := StatusCompleted (total_score (state e1))\<rparr>\<rparr>
         else
           let e2 = set_hole_for_level (level (state e1)) e1
           in e2\<lparr>state := (state e2)\<lparr>status := StatusLevelPlay (level (state e2))\<rparr>,
                  level_start_time := now\<rparr>)"

text \<open>\<^verbatim>\<open>restart_level\<close>.\<close>

definition restart_level :: "MiniGolfEngine \<Rightarrow> MiniGolfEngine" where
  "restart_level e =
     e\<lparr>state := (state e)\<lparr>putts := 0, is_hole_in := False,
                          status := StatusRestarted (level (state e))\<rparr>,
       stopped_frame_count := 0, last_positions := [], celebrating := False\<rparr>"

text \<open>
  \<^verbatim>\<open>MiniGolfEngine.update\<close> is a long method; its part for a located ball is given in
  four stages, in the order of the source.

  Lines 127 to 137: the position is stored and appended to the history, the history is
  cut to its maximal length, and the distance to the hole is stored when a hole is set.
\<close>

definition hole_distance :: "vec2 \<Rightarrow> MiniGolfEngine \<Rightarrow> distance" where
  "hole_distance p e =
     (case hole_position (state e) of
        Some h \<Rightarrow> Dist (norm2 (vsub p h))
      | None \<Rightarrow> DistInf)"

definition record_position :: "vec2 \<Rightarrow> MiniGolfEngine \<Rightarrow> MiniGolfEngine" where
  "record_position p e =
     (let e1 = e\<lparr>state := (state e)\<lparr>ball_world_pos := Some p\<rparr>\<rparr>;
          e2 = e1\<lparr>last_positions := last_positions e1 @ [p]\<rparr>;
          e3 = (if int (length (last_positions e2)) > max_history e2
                then e2\<lparr>last_positions := last_n (max_history e2) (last_positions e2)\<rparr>
                else e2)
      in case hole_position (state e3) of
           Some h \<Rightarrow> e3\<lparr>state := (state e3)\<lparr>distance_to_hole := hole_distance p e3\<rparr>\<rparr>
         | None \<Rightarrow> e3)"

text \<open>
  Lines 141 to 152: the motion check, the published motion flag, and the stroke counted
  on the transition from moving to stopped. The result is the local \<^verbatim>\<open>is_moving\<close> and
  the engine.
\<close>

definition count_stroke :: "MiniGolfEngine \<Rightarrow> bool \<times> MiniGolfEngine" where
  "count_stroke e =
     (let is_moving = fst (check_movement e);
          e5 = snd (check_movement e);
          was_moving = is_ball_moving (state e5);
          e6 = e5\<lparr>state := (state e5)\<lparr>is_ball_moving := is_moving\<rparr>\<rparr>
      in if was_moving \<and> \<not> is_moving
         then (is_moving, e6\<lparr>state := (state e6)\<lparr>putts := putts (state e6) + 1\<rparr>\<rparr>)
         else (is_moving, e6))"

text \<open>Lines 160 to 173: the status message, and the forced advance at the stroke cap; \<open>d\<close> is
  the local \<^verbatim>\<open>dist\<close>.\<close>

definition update_status :: "real \<Rightarrow> bool \<Rightarrow> distance \<Rightarrow> MiniGolfEngine \<Rightarrow> MiniGolfEngine" where
  "update_status now is_moving d e =
     (if is_moving
      then e\<lparr>state := (state e)\<lparr>status := StatusMoving d\<rparr>\<rparr>
      else if putts (state e) = 0
      then e\<lparr>state := (state e)\<lparr>status := StatusHitBall (level (state e))\<rparr>\<rparr>
      else if putts (state e) \<ge> MAX_PUTTS_PER_HOLE
      then advance_level now
             (e\<lparr>state := (state e)\<lparr>status := StatusMaxPutts, putts := MAX_PUTTS_PER_HOLE\<rparr>\<rparr>)
      else e\<lparr>state := (state e)\<lparr>status := StatusPutts (putts (state e)) d\<rparr>\<rparr>)"

text \<open>
  The whole method: the game-over return, the celebration, the undetected ball, then the
  located ball with the hole-in test of lines 154 to 158 between the stages. The method
  returns \<^verbatim>\<open>self.state\<close>, which is the \<open>state\<close> field of the engine returned here.
\<close>

definition engine_update :: "real \<Rightarrow> vec2 option \<Rightarrow> MiniGolfEngine \<Rightarrow> MiniGolfEngine" where
  "engine_update now ball_pos e =
     (if game_over (state e) then e
      else if celebrating e then
        (let elapsed = now - hole_in_time e
         in if elapsed > celebration_duration e
            then advance_level now (e\<lparr>celebrating := False\<rparr>)
            else e\<lparr>state := (state e)\<lparr>status :=
                     StatusCountdown (celebration_duration e - elapsed)\<rparr>\<rparr>)
      else case ball_pos of
        None \<Rightarrow> e\<lparr>state := (state e)\<lparr>status := StatusNotDetected\<rparr>\<rparr>
      | Some p \<Rightarrow>
         (let e4 = record_position p e;
              dist = hole_distance p e4;
              is_moving = fst (count_stroke e4);
              e7 = snd (count_stroke e4)
          in if dist_lt dist HOLE_IN_TOLERANCE_CM
                \<and> (\<not> is_moving \<or> dist_lt dist HOLE_RADIUS_CM)
             then hole_in now e7
             else update_status now is_moving dist e7))"

text \<open>
  The frame loop of the application calls \<^verbatim>\<open>update\<close> once for each frame; \<open>engine_updates\<close>
  feeds a list of (clock reading, position) inputs in order.
\<close>

fun engine_updates :: "(real \<times> vec2 option) list \<Rightarrow> MiniGolfEngine \<Rightarrow> MiniGolfEngine" where
  "engine_updates [] e = e"
| "engine_updates (i # is) e = engine_updates is (engine_update (fst i) (snd i) e)"

text \<open>The motion flag published after each update of a run, in order.\<close>

fun moving_trace :: "(real \<times> vec2 option) list \<Rightarrow> MiniGolfEngine \<Rightarrow> bool list" where
  "moving_trace [] e = []"
| "moving_trace (i # is) e =
     (let e' = engine_update (fst i) (snd i) e
      in is_ball_moving (state e') # moving_trace is e')"

text \<open>
  The engine after \<open>n\<close> updates with the same position \<open>p\<close> since the start of a level,
  while the ball still counts as moving: in play, the history holds \<open>n\<close> copies of \<open>p\<close>,
  the stillness counter has run since the history reached 15 samples, the motion flag is
  set after the first update, and \<open>p\<close> is not within the hole radius.
\<close>

definition still_run :: "vec2 \<Rightarrow> nat \<Rightarrow> MiniGolfEngine \<Rightarrow> bool" where
  "still_run p n e \<longleftrightarrow>
     \<not> game_over (state e) \<and> \<not> celebrating e \<and> max_history e = 30
     \<and> last_positions e = replicate n p
     \<and> stopped_frame_count e = (if n < 15 then 0 else int n - 14)
     \<and> (0 < n \<longrightarrow> is_ball_moving (state e))
     \<and> \<not> dist_lt (hole_distance p e) HOLE_RADIUS_CM"

section \<open>Calibration (calibration.py)\<close>

text \<open>
  A 3-vector is a triple and a 3x3 matrix the triple of its rows. \<open>matvec\<close> is numpy's
  \<^verbatim>\<open>M @ p\<close>.
\<close>

type_synonym vec3 = "real \<times> real \<times> real"
type_synonym mat3 = "vec3 \<times> vec3 \<times> vec3"

fun matvec :: "mat3 \<Rightarrow> vec3 \<Rightarrow> vec3" where
  "matvec ((a, b, c), (d, e, f), (g, h, i)) (x, y, z) =
     (a * x + b * y + c * z, d * x + e * y + f * z, g * x + h * y + i * z)"

fun det3 :: "mat3 \<Rightarrow> real" where
  "det3 ((a, b, c), (d, e, f), (g, h, i)) =
     a * (e * i - f * h) - b * (d * i - f * g) + c * (d * h - e * g)"

datatype error = LinAlgError | TypeError | CvError

text \<open>
  \<^verbatim>\<open>np.linalg.inv\<close> on a 3x3 matrix: it raises \<^verbatim>\<open>LinAlgError\<close> on a singular matrix and
  returns the inverse otherwise (here the adjugate divided by the determinant). This is
  the inverse of exact arithmetic: the rounding of numpy's entries is not represented,
  and nothing below is concluded from the accuracy of a stored inverse. What matters is
  when the call raises, and that the calibrator stores its result.
\<close>

fun inv3 :: "mat3 \<Rightarrow> error + mat3" where
  "inv3 ((a, b, c), (d, e, f), (g, h, i)) =
     (let dt = det3 ((a, b, c), (d, e, f), (g, h, i))
      in if dt = 0 then Inl LinAlgError
         else Inr (((e * i - f * h) / dt, (c * h - b * i) / dt, (b * f - c * e) / dt),
                   ((f * g - d * i) / dt, (a * i - c * g) / dt, (c * d - a * f) / dt),
                   ((d * h - e * g) / dt, (b * g - a * h) / dt, (a * e - b * d) / dt)))"

record HomographyCalibrator =
  H :: "mat3 option"
  H_inv :: "mat3 option"
  image_corners :: "vec2 list option"
  world_corners :: "vec2 list"
  click_points :: "(int \<times> int) list"
  calibration_done :: bool

text \<open>\<^verbatim>\<open>HomographyCalibrator.__init__\<close>.\<close>

definition HomographyCalibrator_init :: HomographyCalibrator where
  "HomographyCalibrator_init =
     \<lparr> H = None, H_inv = None, image_corners = None, world_corners = WORLD_CORNERS,
       click_points = [], calibration_done = False \<rparr>"

definition is_calibrated :: "HomographyCalibrator \<Rightarrow> bool" where
  "is_calibrated c = calibration_done c"

text \<open>
  \<^verbatim>\<open>_compute_homography\<close>. The solver \<^verbatim>\<open>cv2.findHomography(src, dst, cv2.RANSAC, 5.0)\<close>
  belongs to OpenCV: it is the parameter \<open>findHomography\<close>, which yields a matrix, yields
  nothing (\<^verbatim>\<open>None\<close>), or raises \<^verbatim>\<open>cv2.error\<close> (on fewer than four points, for
  instance). When it raises, the assignment of line 147 does not happen and the
  calibrator is as before; missing image corners make it raise as well. Otherwise line
  147 stores the result in \<^verbatim>\<open>self.H\<close> before line 151 tests it. The first component of
  the result is the returned flag or the exception raised, the second the calibrator as
  the call leaves it. The reprojection error is only printed and is left out.
\<close>

definition compute_homography ::
  "(vec2 list \<Rightarrow> vec2 list \<Rightarrow> error + mat3 option) \<Rightarrow> HomographyCalibrator
     \<Rightarrow> (error + bool) \<times> HomographyCalibrator" where
  "compute_homography findHomography c =
     (case image_corners c of
        None \<Rightarrow> (Inl CvError, c)
      | Some ic \<Rightarrow>
         (case findHomography ic (world_corners c) of
            Inl err \<Rightarrow> (Inl err, c)
          | Inr found \<Rightarrow>
             (let c1 = c\<lparr>H := found\<rparr>
              in case H c1 of
                   None \<Rightarrow> (Inr False, c1\<lparr>calibration_done := False\<rparr>)
                 | Some M \<Rightarrow>
                    (case inv3 M of
                       Inl err \<Rightarrow> (Inl err, c1)
                     | Inr Mi \<Rightarrow>
                         (Inr True, c1\<lparr>H_inv := Some Mi, calibration_done := True\<rparr>)))))"

text \<open>\<^verbatim>\<open>set_homography_direct\<close>.\<close>

definition set_homography_direct ::
  "mat3 \<Rightarrow> HomographyCalibrator \<Rightarrow> (error + unit) \<times> HomographyCalibrator" where
  "set_homography_direct M c =
     (let c1 = c\<lparr>H := Some M\<rparr>
      in case inv3 M of
           Inl err \<Rightarrow> (Inl err, c1)
         | Inr Mi \<Rightarrow> (Inr (), c1\<lparr>H_inv := Some Mi, calibration_done := True\<rparr>))"

text \<open>
  \<^verbatim>\<open>image_to_world\<close> and \<^verbatim>\<open>world_to_image\<close>. The results are \<^verbatim>\<open>None\<close> or a point;
  multiplying a missing matrix raises \<^verbatim>\<open>TypeError\<close>.
\<close>

definition image_to_world :: "HomographyCalibrator \<Rightarrow> vec2 \<Rightarrow> error + vec2 option" where
  "image_to_world c image_point =
     (if \<not> calibration_done c then Inr None
      else case H c of
             None \<Rightarrow> Inl TypeError
           | Some M \<Rightarrow>
              (case matvec M (fst image_point, snd image_point, 1) of
                 (w0, w1, w2) \<Rightarrow>
                   if \<bar>w2\<bar> < 1 / 10 ^ 10 then Inr None
                   else Inr (Some (w0 / w2, w1 / w2))))"

definition world_to_image :: "HomographyCalibrator \<Rightarrow> vec2 \<Rightarrow> error + vec2 option" where
  "world_to_image c world_point =
     (if \<not> calibration_done c then Inr None
      else case H_inv c of
             None \<Rightarrow> Inl TypeError
           | Some M \<Rightarrow>
              (case matvec M (fst world_point, snd world_point, 1) of
                 (q0, q1, q2) \<Rightarrow>
                   if \<bar>q2\<bar> < 1 / 10 ^ 10 then Inr None
                   else Inr (Some (q0 / q2, q1 / q2))))"

section \<open>Positioning (positioning.py)\<close>

text \<open>
  The positioner holds its calibrator and the estimated camera centre. The estimate is
  computed by \<^verbatim>\<open>_compute_camera_center\<close> with numpy's singular value decomposition, or
  stored by \<^verbatim>\<open>set_camera_center\<close>; the operations below only read the stored value.
\<close>

record PlanarPositioner =
  calibrator :: HomographyCalibrator
  camera_center_world :: "vec3 option"

definition set_camera_center :: "vec3 \<Rightarrow> PlanarPositioner \<Rightarrow> PlanarPositioner" where
  "set_camera_center camera_center pp = pp\<lparr>camera_center_world := Some camera_center\<rparr>"

definition image_to_plane :: "PlanarPositioner \<Rightarrow> vec2 \<Rightarrow> error + vec2 option" where
  "image_to_plane pp image_point = image_to_world (calibrator pp) image_point"

definition plane_to_image :: "PlanarPositioner \<Rightarrow> vec2 \<Rightarrow> error + vec2 option" where
  "plane_to_image pp world_point = world_to_image (calibrator pp) world_point"

text \<open>\<^verbatim>\<open>correct_height\<close>: the apparent position may be \<^verbatim>\<open>None\<close>.\<close>

definition correct_height :: "PlanarPositioner \<Rightarrow> vec2 option \<Rightarrow> real \<Rightarrow> vec2 option" where
  "correct_height pp apparent_position object_height =
     (case apparent_position of
        None \<Rightarrow> None
      | Some ap \<Rightarrow>
         if \<bar>object_height\<bar> < 1 / 10 ^ 6 then Some ap
         else case camera_center_world pp of
                None \<Rightarrow> Some ap
              | Some (Cx, Cy, Cz) \<Rightarrow>
                 if \<bar>Cz - object_height\<bar> < 1 / 10 ^ 6 then Some ap
                 else
                   let k = Cz / (Cz - object_height);
                       X_corrected = Cx + k * (fst ap - Cx);
                       Y_corrected = Cy + k * (snd ap - Cy)
                   in Some (X_corrected, Y_corrected))"

text \<open>\<^verbatim>\<open>get_ball_world_position\<close>.\<close>

definition get_ball_world_position ::
  "PlanarPositioner \<Rightarrow> vec2 \<Rightarrow> real option \<Rightarrow> error + vec2 option" where
  "get_ball_world_position pp image_point ball_radius_cm =
     (case image_to_plane pp image_point of
        Inl err \<Rightarrow> Inl err
      | Inr None \<Rightarrow> Inr None
      | Inr (Some apparent_pos) \<Rightarrow>
         (case ball_radius_cm of
            None \<Rightarrow> Inr (Some apparent_pos)
          | Some r \<Rightarrow>
             if r > 0 then Inr (correct_height pp (Some apparent_pos) r)
             else Inr (Some apparent_pos)))"

section \<open>The colour tracker (tracking.py)\<close>

text \<open>Python's \<^verbatim>\<open>int()\<close> on a float truncates towards zero.\<close>

definition py_int :: "real \<Rightarrow> int" where
  "py_int x = (if x \<ge> 0 then \<lfloor>x\<rfloor> else \<lceil>x\<rceil>)"

text \<open>
  The segmentation of a frame (colour conversion, mask, erosion, dilation, external
  contours) is OpenCV's. A contour is represented by the three measurements the tracker
  takes from it, named after the calls that produce them; a frame by its shape
  (height, width) and by the contours that the pipeline yields for given colour bounds in
  a given window (x1, y1, x2, y2).
\<close>

record contour =
  contourArea :: real
  minEnclosingCircle :: "vec2 \<times> real"
  arcLength :: real

record frame =
  shape :: "int \<times> int"
  findContours :: "int \<times> int \<times> int \<Rightarrow> int \<times> int \<times> int
                     \<Rightarrow> int \<times> int \<times> int \<times> int \<Rightarrow> contour list"

record ColorTracker =
  hsv_lower :: "int \<times> int \<times> int"
  hsv_upper :: "int \<times> int \<times> int"
  last_position :: "vec2 option"
  last_radius :: "real option"
  search_margin :: int
  initialized :: bool
  lost_counter :: int
  max_lost_frames :: int
  velocity :: vec2

text \<open>\<^verbatim>\<open>ColorTracker.__init__\<close> with the default colour bounds.\<close>

definition ColorTracker_init :: ColorTracker where
  "ColorTracker_init =
     \<lparr> hsv_lower = BALL_HSV_LOWER, hsv_upper = BALL_HSV_UPPER, last_position = None,
       last_radius = None, search_margin = TRACKING_SEARCH_MARGIN, initialized = False,
       lost_counter = 0, max_lost_frames = 30, velocity = (0.0, 0.0) \<rparr>"

text \<open>\<^verbatim>\<open>ColorTracker.initialize\<close>.\<close>

definition tracker_initialize :: "real \<Rightarrow> real \<Rightarrow> real \<Rightarrow> ColorTracker \<Rightarrow> ColorTracker" where
  "tracker_initialize cx cy radius t =
     t\<lparr>last_position := Some (cx, cy), last_radius := Some radius, initialized := True,
       lost_counter := 0, velocity := (0.0, 0.0)\<rparr>"

text \<open>\<^verbatim>\<open>ColorTracker.is_lost\<close>.\<close>

definition is_lost :: "ColorTracker \<Rightarrow> bool" where
  "is_lost t = (lost_counter t > max_lost_frames t)"

text \<open>
  The search window of \<^verbatim>\<open>update\<close> (lines 68 to 75): the margin and the corners
  (x1, y1, x2, y2) around the predicted position, clipped to the frame.
\<close>

definition roi_margin :: "ColorTracker \<Rightarrow> real \<Rightarrow> int" where
  "roi_margin t lr = search_margin t + py_int (lr * 2)"

definition search_window ::
  "frame \<Rightarrow> ColorTracker \<Rightarrow> vec2 \<Rightarrow> real \<Rightarrow> int \<times> int \<times> int \<times> int" where
  "search_window fr t lp lr =
     (let h = fst (shape fr);
          w = snd (shape fr);
          predicted = vadd lp (velocity t);
          margin = roi_margin t lr;
          x1 = max 0 (py_int (fst predicted - real_of_int margin));
          y1 = max 0 (py_int (snd predicted - real_of_int margin));
          x2 = min w (py_int (fst predicted + real_of_int margin));
          y2 = min h (py_int (snd predicted + real_of_int margin))
      in (x1, y1, x2, y2))"

text \<open>
  The loop over the contours (lines 107 to 136) with its two accumulators, the best
  candidate so far and its score. It is only reached with a window at least 10 wide,
  so the margin that divides the distance is positive.
\<close>

fun scan_contours ::
  "vec2 \<Rightarrow> real \<Rightarrow> int \<Rightarrow> int \<Rightarrow> int \<Rightarrow> contour list
     \<Rightarrow> (real \<times> real \<times> real) option \<times> real \<Rightarrow> (real \<times> real \<times> real) option \<times> real" where
  "scan_contours predicted lr margin x1 y1 [] acc = acc"
| "scan_contours predicted lr margin x1 y1 (cnt # cnts) acc =
     (let area = contourArea cnt
      in if area < pi * BALL_MIN_RADIUS_PX\<^sup>2 * 0.3
         then scan_contours predicted lr margin x1 y1 cnts acc
         else
           let cx_local = fst (fst (minEnclosingCircle cnt));
               cy_local = snd (fst (minEnclosingCircle cnt));
               radius = snd (minEnclosingCircle cnt)
           in if radius < BALL_MIN_RADIUS_PX * 0.5
              then scan_contours predicted lr margin x1 y1 cnts acc
              else if radius > BALL_MAX_RADIUS_PX * 1.5
              then scan_contours predicted lr margin x1 y1 cnts acc
              else
                let cx_global = cx_local + real_of_int x1;
                    cy_global = cy_local + real_of_int y1;
                    dist = sqrt ((cx_global - fst predicted)\<^sup>2
                                 + (cy_global - snd predicted)\<^sup>2);
                    radius_diff = \<bar>radius - lr\<bar> / max lr 1;
                    perimeter = arcLength cnt;
                    circularity = (if perimeter > 0
                                   then 4 * pi * area / perimeter\<^sup>2 else 0);
                    score = circularity - dist / real_of_int margin - radius_diff * 0.5
                in if score > snd acc
                   then scan_contours predicted lr margin x1 y1 cnts
                          (Some (cx_global, cy_global, radius), score)
                   else scan_contours predicted lr margin x1 y1 cnts acc)"

text \<open>
  \<^verbatim>\<open>ColorTracker.update\<close>: the value returned (a pixel triple, \<^verbatim>\<open>None\<close>, or the
  \<^verbatim>\<open>TypeError\<close> of an initialised tracker without a position) and the tracker afterwards.
\<close>

definition tracker_update ::
  "frame \<Rightarrow> ColorTracker \<Rightarrow> (error + (int \<times> int \<times> int) option) \<times> ColorTracker" where
  "tracker_update fr t =
     (if \<not> initialized t then (Inr None, t)
      else case last_position t of
        None \<Rightarrow> (Inl TypeError, t)
      | Some lp \<Rightarrow>
        (case last_radius t of
           None \<Rightarrow> (Inl TypeError, t)
         | Some lr \<Rightarrow>
           (let predicted = vadd lp (velocity t);
                margin = roi_margin t lr;
                x1 = fst (search_window fr t lp lr);
                y1 = fst (snd (search_window fr t lp lr));
                x2 = fst (snd (snd (search_window fr t lp lr)));
                y2 = snd (snd (snd (search_window fr t lp lr)))
            in if x2 - x1 < 10 \<or> y2 - y1 < 10
               then (Inr None, t\<lparr>lost_counter := lost_counter t + 1\<rparr>)
               else
                 let contours = findContours fr (hsv_lower t) (hsv_upper t) (x1, y1, x2, y2)
                 in if contours = []
                    then
                      (let t1 = t\<lparr>lost_counter := lost_counter t + 1\<rparr>
                       in if lost_counter t1 \<le> max_lost_frames t1
                          then (Inr (Some (py_int (fst lp), py_int (snd lp), py_int lr)), t1)
                          else (Inr None, t1))
                    else
                      (case fst (scan_contours predicted lr margin x1 y1 contours (None, - 1)) of
                         None \<Rightarrow>
                           (Inr (Some (py_int (fst lp), py_int (snd lp), py_int lr)),
                            t\<lparr>lost_counter := lost_counter t + 1\<rparr>)
                       | Some (cx, cy, radius) \<Rightarrow>
                           (let new_position = (cx, cy);
                                alpha = 0.6;
                                new_vel = vsub new_position lp;
                                new_radius = 0.7 * lr + 0.3 * radius
                            in (Inr (Some (py_int cx, py_int cy, py_int new_radius)),
                                t\<lparr>velocity := vadd (vscale alpha new_vel)
                                                   (vscale (1 - alpha) (velocity t)),
                                  last_position := Some new_position,
                                  last_radius := Some new_radius,
                                  lost_counter := 0\<rparr>))))))"

text \<open>
  The test of line 77: the search window is less than 10 pixels wide or high (the ball
  is predicted at the border of the frame or outside it). Such a window is not searched.
\<close>

definition window_degenerate :: "frame \<Rightarrow> ColorTracker \<Rightarrow> bool" where
  "window_degenerate fr t =
     (case last_position t of
        None \<Rightarrow> False
      | Some lp \<Rightarrow>
        (case last_radius t of
           None \<Rightarrow> False
         | Some lr \<Rightarrow>
           (let x1 = fst (search_window fr t lp lr);
                y1 = fst (snd (search_window fr t lp lr));
                x2 = fst (snd (snd (search_window fr t lp lr)));
                y2 = snd (snd (snd (search_window fr t lp lr)))
            in x2 - x1 < 10 \<or> y2 - y1 < 10)))"

text \<open>
  A frame whose window is searched without a match: the window is not degenerate, and
  either the pipeline yields no contour there or none passes the filters of the loop.
\<close>

definition no_contour_match :: "frame \<Rightarrow> ColorTracker \<Rightarrow> bool" where
  "no_contour_match fr t =
     (case last_position t of
        None \<Rightarrow> False
      | Some lp \<Rightarrow>
        (case last_radius t of
           None \<Rightarrow> False
         | Some lr \<Rightarrow>
           (let x1 = fst (search_window fr t lp lr);
                y1 = fst (snd (search_window fr t lp lr));
                x2 = fst (snd (snd (search_window fr t lp lr)));
                y2 = snd (snd (snd (search_window fr t lp lr)))
            in \<not> (x2 - x1 < 10 \<or> y2 - y1 < 10)
               \<and> fst (scan_contours (vadd lp (velocity t)) lr (roi_margin t lr) x1 y1
                        (findContours fr (hsv_lower t) (hsv_upper t) (x1, y1, x2, y2))
                        (None, - 1)) = None)))"

text \<open>
  The frame loop calls \<^verbatim>\<open>update\<close> once for each frame. \<open>tracker_run\<close> feeds the frames in
  order and collects the returned values; an exception ends the run.
\<close>

fun tracker_run ::
  "frame list \<Rightarrow> ColorTracker \<Rightarrow> (error + (int \<times> int \<times> int) option) list \<times> ColorTracker" where
  "tracker_run [] t = ([], t)"
| "tracker_run (fr # frs) t =
     (case tracker_update fr t of
        (Inl err, t') \<Rightarrow> ([Inl err], t')
      | (Inr r, t') \<Rightarrow> (Inr r # fst (tracker_run frs t'), snd (tracker_run frs t')))"

text \<open>A frame of 640 by 480 pixels in which the pipeline finds no contour at all.\<close>

definition blank_frame :: frame where
  "blank_frame = \<lparr> shape = (480, 640), findContours = (\<lambda>lo hi win. []) \<rparr>"

section \<open>Concrete inputs\<close>

text \<open>An engine that plays the fifth and last configured level.\<close>

definition last_level_engine :: MiniGolfEngine where
  "last_level_engine =
     MiniGolfEngine_init\<lparr>state := GameState_init\<lparr>level := 5, hole_position := Some (30, 5)\<rparr>\<rparr>"

text \<open>The engine right after \<^verbatim>\<open>start_game\<close>, with the clock at 0.\<close>

definition fresh_game :: MiniGolfEngine where
  "fresh_game = start_game 0 MiniGolfEngine_init"

text \<open>A positioner whose camera centre is 10 units above the origin of the plane.\<close>

definition camera_above_origin :: PlanarPositioner where
  "camera_above_origin =
     \<lparr> calibrator = HomographyCalibrator_init, camera_center_world = Some (0, 0, 10) \<rparr>"

text \<open>
  A calibrator whose mapping doubles both image coordinates (it sends the image corners
  below to the configured world corners).
\<close>

definition scale2 :: mat3 where
  "scale2 = ((2, 0, 0), (0, 2, 0), (0, 0, 1))"

definition calibrated_scale2 :: HomographyCalibrator where
  "calibrated_scale2 =
     snd (set_homography_direct scale2
            (HomographyCalibrator_init\<lparr>image_corners :=
               Some [(0, 0), (30, 0), (30, 20), (0, 20)]\<rparr>))"

text \<open>
  Four image corners on one line, as four clicks along an edge give them, and the
  calibrator above once the application has stored them (calibration.py line 91,
  main.py line 504) and is about to call \<^verbatim>\<open>_compute_homography\<close> again.
\<close>

definition collinear_corners :: "vec2 list" where
  "collinear_corners = [(0, 0), (10, 0), (20, 0), (30, 0)]"

definition recalibrating_collinear :: HomographyCalibrator where
  "recalibrating_collinear = calibrated_scale2\<lparr>image_corners := Some collinear_corners\<rparr>"

text \<open>All points of a list lie on the line through its first two points.\<close>

fun collinear_points :: "vec2 list \<Rightarrow> bool" where
  "collinear_points (a # b # ps) =
     list_all (\<lambda>p. (fst b - fst a) * (snd p - snd a) - (snd b - snd a) * (fst p - fst a) = 0) ps"
| "collinear_points ps = True"

text \<open>
  A sample of the solver at the inputs used below. It raises on fewer than four points
  or on lists of different lengths, finds no homography through collinear source points
  (as \<^verbatim>\<open>cv2.findHomography\<close> does), and finds the doubling for the rectangle of
  \<open>calibrated_scale2\<close> and the configured world corners, which is the exact mapping of
  those four correspondences. Its answer on other inputs plays no part.
\<close>

definition sample_findHomography :: "vec2 list \<Rightarrow> vec2 list \<Rightarrow> error + mat3 option" where
  "sample_findHomography src dst =
     (if length src < 4 \<or> length dst \<noteq> length src then Inl CvError
      else if collinear_points src then Inr None
      else if src = [(0, 0), (30, 0), (30, 20), (0, 20)] \<and> dst = WORLD_CORNERS
      then Inr (Some scale2)
      else Inr None)"

text \<open>A tracker initialised on a ball that has left the frame at the top left.\<close>

definition offscreen_tracker :: ColorTracker where
  "offscreen_tracker = tracker_initialize (- 100) (- 100) 2 ColorTracker_init"

section \<open>Restarting a level\<close>

text \<open>
  Claim C10. For every engine, restarting the current level sets the stroke count to 0,
  clears the holed flag, the stillness counter, the position history and the celebration,
  and leaves the level index, the cumulative score, the hole position, the obstacle list
  and the game-over flag as they were.
\<close>

theorem restart_level_frame:
  "putts (state (restart_level e)) = 0
   \<and> is_hole_in (state (restart_level e)) = False
   \<and> stopped_frame_count (restart_level e) = 0
   \<and> last_positions (restart_level e) = []
   \<and> celebrating (restart_level e) = False
   \<and> level (state (restart_level e)) = level (state e)
   \<and> total_score (state (restart_level e)) = total_score (state e)
   \<and> hole_position (state (restart_level e)) = hole_position (state e)
   \<and> obstacles (state (restart_level e)) = obstacles (state e)
   \<and> game_over (state (restart_level e)) = game_over (state e)"
  by (simp add: restart_level_def)

section \<open>Game over\<close>

text \<open>
  Claim C9. Advancing the level from the last configured hole position (level index at
  least the number of positions) sets the game-over flag; and once the flag is set, an
  update with any clock reading and any position, and so any sequence of updates, returns
  the engine unchanged: the stroke count and the cumulative score stay as they are.
\<close>

theorem game_over_halts:
  "(level (state e) \<ge> int (length HOLE_POSITIONS) \<longrightarrow> game_over (state (advance_level now e)))
   \<and> (game_over (state e) \<longrightarrow>
        engine_update now pos e = e
      \<and> engine_updates ins e = e
      \<and> putts (state (engine_updates ins e)) = putts (state e)
      \<and> total_score (state (engine_updates ins e)) = total_score (state e))"
proof -
  have stay: "engine_updates ins e = e" if "game_over (state e)"
    using that by (induction ins arbitrary: e) (simp_all add: engine_update_def)
  show ?thesis
    by (simp add: stay) (simp add: advance_level_def Let_def engine_update_def)
qed

theorem game_over_halts_witness:
  "level (state last_level_engine) \<ge> int (length HOLE_POSITIONS)
   \<and> game_over (state (advance_level 7 last_level_engine))
   \<and> engine_update 8 (Some (1, 1)) (advance_level 7 last_level_engine)
       = advance_level 7 last_level_engine
   \<and> putts (state (engine_updates [(8, Some (1, 1)), (9, None)]
               (advance_level 7 last_level_engine)))
       = putts (state (advance_level 7 last_level_engine))"
proof -
  have l: "level (state last_level_engine) \<ge> int (length HOLE_POSITIONS)"
    by (simp add: last_level_engine_def HOLE_POSITIONS_def)
  have g: "game_over (state (advance_level 7 last_level_engine))"
    using game_over_halts [of last_level_engine 7] l by simp
  show ?thesis
    using l g game_over_halts [of "advance_level 7 last_level_engine" 8 "Some (1, 1)"
                                  "[(8, Some (1, 1)), (9, None)]"]
    by (simp del: engine_updates.simps)
qed

section \<open>Height correction\<close>

text \<open>
  Claim C7. For every apparent position \<open>P\<close>, \<open>correct_height\<close> returns \<open>P\<close>
  unchanged when the height has magnitude below 1e-6 (in particular height 0), when no
  camera-centre estimate is stored, and when the camera height \<open>Cz\<close> is within 1e-6 of
  the object height.
\<close>

theorem correct_height_identity:
  "\<bar>h\<bar> < 1 / 10 ^ 6 \<or> camera_center_world pp = None
     \<or> (\<exists>Cx Cy Cz. camera_center_world pp = Some (Cx, Cy, Cz) \<and> \<bar>Cz - h\<bar> < 1 / 10 ^ 6)
   \<Longrightarrow> correct_height pp (Some P) h = Some P"
  by (auto simp add: correct_height_def)

theorem correct_height_identity_witness:
  "correct_height camera_above_origin (Some (3, 4)) 0 = Some (3, 4)
   \<and> correct_height (camera_above_origin\<lparr>camera_center_world := None\<rparr>) (Some (3, 4)) 2
       = Some (3, 4)
   \<and> correct_height camera_above_origin (Some (3, 4)) 10 = Some (3, 4)"
proof -
  have a: "\<bar>0::real\<bar> < 1 / 10 ^ 6" by simp
  have b: "camera_center_world (camera_above_origin\<lparr>camera_center_world := None\<rparr>) = None"
    by simp
  have c: "\<exists>Cx Cy Cz. camera_center_world camera_above_origin = Some (Cx, Cy, Cz)
             \<and> \<bar>Cz - 10\<bar> < 1 / 10 ^ 6"
    by (simp add: camera_above_origin_def)
  show ?thesis
    using correct_height_identity [of 0 camera_above_origin "(3, 4)"] a
      correct_height_identity [of 2 "camera_above_origin\<lparr>camera_center_world := None\<rparr>" "(3, 4)"] b
      correct_height_identity [of 10 camera_above_origin "(3, 4)"] c
    by blast
qed

section \<open>Image to plane\<close>

text \<open>
  Claim C6. \<open>image_to_plane\<close> returns none whenever the calibrator is not calibrated;
  when it is calibrated with forward matrix \<open>M\<close> and \<open>(w0, w1, w2)\<close> is the image point
  transformed by \<open>M\<close>, it returns none exactly when the magnitude of \<open>w2\<close> is below
  1e-10, and otherwise the point \<open>(w0 / w2, w1 / w2)\<close>.
\<close>

theorem image_to_plane_result:
  "(\<not> calibration_done (calibrator pp) \<longrightarrow> image_to_plane pp ip = Inr None)
   \<and> (calibration_done (calibrator pp) \<and> H (calibrator pp) = Some M
        \<and> matvec M (fst ip, snd ip, 1) = (w0, w1, w2) \<longrightarrow>
         (image_to_plane pp ip = Inr None \<longleftrightarrow> \<bar>w2\<bar> < 1 / 10 ^ 10)
       \<and> (\<not> \<bar>w2\<bar> < 1 / 10 ^ 10 \<longrightarrow> image_to_plane pp ip = Inr (Some (w0 / w2, w1 / w2))))"
  by (simp add: image_to_plane_def image_to_world_def)

theorem image_to_plane_result_witness:
  "image_to_plane camera_above_origin (2, 3) = Inr None
   \<and> image_to_plane (camera_above_origin\<lparr>calibrator := calibrated_scale2\<rparr>) (2, 3)
       = Inr (Some (4, 6))"
proof -
  have a: "\<not> calibration_done (calibrator camera_above_origin)"
    by (simp add: camera_above_origin_def HomographyCalibrator_init_def)
  have b: "calibration_done (calibrator (camera_above_origin\<lparr>calibrator := calibrated_scale2\<rparr>))
           \<and> H (calibrator (camera_above_origin\<lparr>calibrator := calibrated_scale2\<rparr>)) = Some scale2
           \<and> matvec scale2 (fst (2, 3), snd (2, 3), 1) = (4, 6, 1)"
    by (simp add: calibrated_scale2_def set_homography_direct_def scale2_def Let_def)
  have c: "\<not> \<bar>1::real\<bar> < 1 / 10 ^ 10" by simp
  show ?thesis
    using a b c image_to_plane_result [of camera_above_origin "(2, 3)"]
      image_to_plane_result [of "camera_above_origin\<lparr>calibrator := calibrated_scale2\<rparr>"
                                "(2, 3)" scale2 4 6 1]
    by simp
qed

section \<open>Direction of the height correction\<close>

lemma norm2_vscale: "norm2 (vscale k v) = \<bar>k\<bar> * norm2 v"
  by (simp add: norm2_def vscale_def power_mult_distrib real_sqrt_mult flip: distrib_left)

lemma norm2_pos_iff: "0 < norm2 v \<longleftrightarrow> v \<noteq> (0, 0)"
  by (cases v) (auto simp add: norm2_def sum_power2_gt_zero_iff)

text \<open>
  Claim C8, as the code has it. The claim asks only for \<open>Cz > h > 0\<close>, but
  \<open>correct_height\<close> returns the apparent position unchanged when the height is below 1e-6
  or within 1e-6 of \<open>Cz\<close>. For a camera centre \<open>(Cx, Cy, Cz)\<close>, a height \<open>h\<close> of at least
  1e-6 with \<open>Cz - h\<close> at least 1e-6, and an apparent position \<open>P\<close> other than \<open>(Cx, Cy)\<close>:
  the factor \<open>k = Cz / (Cz - h)\<close> is greater than 1, the corrected point is
  \<open>(Cx, Cy) + k (P - (Cx, Cy))\<close>, on the ray from \<open>(Cx, Cy)\<close> through \<open>P\<close>, its distance from
  \<open>(Cx, Cy)\<close> is \<open>k\<close> times that of \<open>P\<close>, and so strictly larger.
\<close>

theorem correct_height_farther:
  assumes cc: "camera_center_world pp = Some (Cx, Cy, Cz)"
    and h: "1 / 10 ^ 6 \<le> h" and cz: "1 / 10 ^ 6 \<le> Cz - h" and ne: "P \<noteq> (Cx, Cy)"
  shows "1 < Cz / (Cz - h)
    \<and> correct_height pp (Some P) h
        = Some (vadd (Cx, Cy) (vscale (Cz / (Cz - h)) (vsub P (Cx, Cy))))
    \<and> norm2 (vsub (vadd (Cx, Cy) (vscale (Cz / (Cz - h)) (vsub P (Cx, Cy)))) (Cx, Cy))
        = (Cz / (Cz - h)) * norm2 (vsub P (Cx, Cy))
    \<and> norm2 (vsub P (Cx, Cy))
        < norm2 (vsub (vadd (Cx, Cy) (vscale (Cz / (Cz - h)) (vsub P (Cx, Cy)))) (Cx, Cy))"
proof -
  let ?k = "Cz / (Cz - h)"
  have hpos: "0 < h" using h by (smt (verit) divide_pos_pos zero_less_power zero_less_one)
  have dpos: "0 < Cz - h" using cz by (smt (verit) divide_pos_pos zero_less_power zero_less_one)
  have k: "1 < ?k" using hpos dpos by (simp add: field_simps)
  have ch: "correct_height pp (Some P) h = Some (vadd (Cx, Cy) (vscale ?k (vsub P (Cx, Cy))))"
    using cc h cz hpos dpos by (simp add: correct_height_def vadd_def vscale_def vsub_def Let_def)
  have diff_eq: "vsub (vadd (Cx, Cy) (vscale ?k (vsub P (Cx, Cy)))) (Cx, Cy)
                 = vscale ?k (vsub P (Cx, Cy))"
    by (simp add: vadd_def vscale_def vsub_def)
  have nz: "0 < norm2 (vsub P (Cx, Cy))"
    using ne by (cases P) (auto simp add: norm2_pos_iff vsub_def)
  have n: "norm2 (vscale ?k (vsub P (Cx, Cy))) = ?k * norm2 (vsub P (Cx, Cy))"
  proof -
    have "\<bar>?k\<bar> = ?k" using k by (intro abs_of_pos) linarith
    then show ?thesis by (simp only: norm2_vscale)
  qed
  have lt: "norm2 (vsub P (Cx, Cy)) < ?k * norm2 (vsub P (Cx, Cy))"
  proof -
    have "1 * norm2 (vsub P (Cx, Cy)) < ?k * norm2 (vsub P (Cx, Cy))"
      by (rule mult_strict_right_mono [OF k nz])
    then show ?thesis by (simp only: mult_1)
  qed
  show ?thesis using k ch lt n by (simp only: diff_eq simp_thms)
qed

theorem correct_height_farther_witness:
  "correct_height camera_above_origin (Some (3, 4)) 2 = Some (15 / 4, 5)
   \<and> norm2 (vsub (3, 4) (0, 0)) < norm2 (vsub (15 / 4, 5) (0, 0))"
proof -
  have cc: "camera_center_world camera_above_origin = Some (0, 0, 10)"
    by (simp add: camera_above_origin_def)
  have h: "1 / 10 ^ 6 \<le> (2::real)" and cz: "1 / 10 ^ 6 \<le> (10::real) - 2"
    and ne: "(3, 4) \<noteq> (0::real, 0::real)"
    by simp_all
  have v: "vadd (0, 0) (vscale (10 / (10 - 2)) (vsub (3, 4) (0, 0))) = (15 / 4, 5)"
    by (simp add: vadd_def vscale_def vsub_def)
  show ?thesis
    using correct_height_farther [OF cc h cz ne] unfolding v by blast
qed

text \<open>
  The claim as stated fails for a height between 0 and 1e-6: with the camera 10 above
  the origin and \<open>h = 1e-7\<close>, the hypotheses \<open>Cz > h > 0\<close> and \<open>P \<noteq> (Cx, Cy)\<close> hold and the
  corrected point is the apparent point itself, so it is not strictly farther.
\<close>

theorem correct_height_tiny_height:
  "camera_center_world camera_above_origin = Some (0, 0, 10)
   \<and> (10::real) > 1 / 10 ^ 7 \<and> (1::real) / 10 ^ 7 > 0 \<and> (1::real, 0::real) \<noteq> (0, 0)
   \<and> correct_height camera_above_origin (Some (1, 0)) (1 / 10 ^ 7) = Some (1, 0)
   \<and> \<not> norm2 (vsub (1, 0) (0, 0)) < norm2 (vsub (1, 0) (0, 0))"
  by (simp add: camera_above_origin_def correct_height_def)

section \<open>A failed homography computation\<close>

text \<open>
  What \<open>compute_homography\<close> leaves behind when the solver yields no matrix: the flag
  false, the calibrator not calibrated, the inverse transform of before, and no forward
  transform; both conversions then return none.
\<close>

lemma failed_homography_state:
  assumes "image_corners c = Some ic" and "findHomography ic (world_corners c) = Inr None"
  shows "compute_homography findHomography c
         = (Inr False, c\<lparr>H := None, calibration_done := False\<rparr>)"
    and "image_to_world (snd (compute_homography findHomography c)) p = Inr None"
    and "world_to_image (snd (compute_homography findHomography c)) p = Inr None"
  using assms
  by (simp_all add: compute_homography_def Let_def image_to_world_def world_to_image_def)

text \<open>
  When the solver yields a singular matrix, the matrix is stored as the forward
  transform, \<^verbatim>\<open>np.linalg.inv\<close> raises, and the calibrated flag and the inverse transform
  stay as they were.
\<close>

lemma singular_homography_raises:
  assumes "image_corners c = Some ic" and "findHomography ic (world_corners c) = Inr (Some M)"
    and "det3 M = 0"
  shows "compute_homography findHomography c = (Inl LinAlgError, c\<lparr>H := Some M\<rparr>)"
proof -
  obtain a b c' d e f g h i where M: "M = ((a, b, c'), (d, e, f), (g, h, i))"
    by (metis prod_cases3)
  have "inv3 M = Inl LinAlgError" using assms(3) unfolding M by (simp add: Let_def)
  then show ?thesis
    using assms(1,2) by (simp add: compute_homography_def Let_def del: inv3.simps)
qed

text \<open>
  Claim C2. The claim asks that a failed computation reports failure with
  calibrated=false and leaves the stored forward and inverse transforms as they were.
  The code does not: for four stored correspondences for which the solver yields no
  matrix, on a calibrator that holds a forward transform \<open>M\<close>, \<open>compute_homography\<close>
  returns false, leaves the calibrator not calibrated and the inverse transform as it
  was, but the stored forward transform is none afterwards and so differs from the one
  before. Line 147 has assigned the solver's result to \<^verbatim>\<open>self.H\<close> before line 151
  tests it.
\<close>

theorem failed_homography:
  assumes "image_corners c = Some ic" and "length ic = 4" and "length (world_corners c) = 4"
    and "findHomography ic (world_corners c) = Inr None"
    and "H c = Some M"
  shows "fst (compute_homography findHomography c) = Inr False
    \<and> \<not> calibration_done (snd (compute_homography findHomography c))
    \<and> H_inv (snd (compute_homography findHomography c)) = H_inv c
    \<and> H (snd (compute_homography findHomography c)) = None
    \<and> H (snd (compute_homography findHomography c)) \<noteq> H c"
  using assms by (simp add: failed_homography_state(1))

theorem failed_homography_witness:
  "calibration_done recalibrating_collinear
   \<and> H recalibrating_collinear = Some scale2
   \<and> fst (compute_homography sample_findHomography recalibrating_collinear) = Inr False
   \<and> \<not> calibration_done (snd (compute_homography sample_findHomography recalibrating_collinear))
   \<and> H_inv (snd (compute_homography sample_findHomography recalibrating_collinear))
       = H_inv recalibrating_collinear
   \<and> H (snd (compute_homography sample_findHomography recalibrating_collinear)) = None"
proof -
  have a: "image_corners recalibrating_collinear = Some collinear_corners"
    by (simp add: recalibrating_collinear_def)
  have l: "length collinear_corners = 4" "length (world_corners recalibrating_collinear) = 4"
    by (simp_all add: collinear_corners_def recalibrating_collinear_def calibrated_scale2_def
          set_homography_direct_def scale2_def Let_def HomographyCalibrator_init_def
          WORLD_CORNERS_def)
  have w: "world_corners recalibrating_collinear = WORLD_CORNERS"
    by (simp add: recalibrating_collinear_def calibrated_scale2_def
          set_homography_direct_def scale2_def Let_def HomographyCalibrator_init_def)
  have b: "sample_findHomography collinear_corners (world_corners recalibrating_collinear)
           = Inr None"
    by (simp add: w sample_findHomography_def collinear_corners_def WORLD_CORNERS_def)
  have h: "H recalibrating_collinear = Some scale2"
    and d: "calibration_done recalibrating_collinear"
    by (simp_all add: recalibrating_collinear_def calibrated_scale2_def
          set_homography_direct_def scale2_def Let_def)
  show ?thesis
    using a l b d h
      failed_homography [of recalibrating_collinear collinear_corners sample_findHomography scale2]
    by simp
qed

section \<open>Losing the track\<close>

lemma no_contour_match_counter:
  "no_contour_match fr (t\<lparr>lost_counter := k\<rparr>) = no_contour_match fr t"
  by (simp add: no_contour_match_def search_window_def roi_margin_def split: option.splits)

lemma window_degenerate_counter:
  "window_degenerate fr (t\<lparr>lost_counter := k\<rparr>) = window_degenerate fr t"
  by (simp add: window_degenerate_def search_window_def roi_margin_def split: option.splits)

lemma no_contour_match_searched:
  "no_contour_match fr t \<Longrightarrow> \<not> window_degenerate fr t"
  by (auto simp add: no_contour_match_def window_degenerate_def Let_def split: option.splits)

lemma tracker_update_no_match:
  assumes "no_contour_match fr t" "initialized t"
    "last_position t = Some lp" "last_radius t = Some lr"
  shows "snd (tracker_update fr t) = t\<lparr>lost_counter := lost_counter t + 1\<rparr>"
    and "\<exists>r. fst (tracker_update fr t) = Inr r"
    and "lost_counter t + 1 \<le> max_lost_frames t \<Longrightarrow>
         fst (tracker_update fr t) = Inr (Some (py_int (fst lp), py_int (snd lp), py_int lr))"
  using assms
  by (auto simp add: tracker_update_def no_contour_match_def Let_def)

lemma tracker_update_degenerate:
  assumes "window_degenerate fr t" "initialized t"
    "last_position t = Some lp" "last_radius t = Some lr"
  shows "tracker_update fr t = (Inr None, t\<lparr>lost_counter := lost_counter t + 1\<rparr>)"
  using assms
  by (auto simp add: tracker_update_def window_degenerate_def Let_def)

text \<open>
  A run over frames that are all lost, with a degenerate window or with a window searched
  without a match: only the counter changes, and while it does not exceed the ceiling an
  update returns none for a degenerate window and the last position and radius otherwise.
\<close>

lemma tracker_run_lost:
  assumes "\<forall>fr \<in> set frs. window_degenerate fr t \<or> no_contour_match fr t" "initialized t"
    "last_position t = Some lp" "last_radius t = Some lr"
  shows "snd (tracker_run frs t) = t\<lparr>lost_counter := lost_counter t + int (length frs)\<rparr>
     \<and> (\<forall>i < length frs. lost_counter t + int i + 1 \<le> max_lost_frames t \<longrightarrow>
           fst (tracker_run frs t) ! i
           = (if window_degenerate (frs ! i) t then Inr None
              else Inr (Some (py_int (fst lp), py_int (snd lp), py_int lr))))"
  using assms
proof (induction frs arbitrary: t)
  case Nil
  then show ?case by simp
next
  case (Cons fr frs)
  let ?t' = "t\<lparr>lost_counter := lost_counter t + 1\<rparr>"
  let ?coast = "Inr (Some (py_int (fst lp), py_int (snd lp), py_int lr))
                  :: error + (int \<times> int \<times> int) option"
  have lost: "window_degenerate fr t \<or> no_contour_match fr t" using Cons.prems(1) by simp
  have st: "snd (tracker_update fr t) = ?t'" and ok: "\<exists>r. fst (tracker_update fr t) = Inr r"
    using lost tracker_update_no_match(1,2) [OF _ Cons.prems(2,3,4)]
      tracker_update_degenerate [OF _ Cons.prems(2,3,4)]
    by auto
  have first: "fst (tracker_update fr t) = (if window_degenerate fr t then Inr None else ?coast)"
    if "lost_counter t + 1 \<le> max_lost_frames t"
  proof (cases "window_degenerate fr t")
    case True
    then show ?thesis using tracker_update_degenerate [OF True Cons.prems(2,3,4)] by simp
  next
    case False
    then have "no_contour_match fr t" using lost by simp
    then show ?thesis
      using False that tracker_update_no_match(3) [OF _ Cons.prems(2,3,4)] by simp
  qed
  obtain r where r: "tracker_update fr t = (Inr r, ?t')"
    using st ok by (metis prod.collapse)
  have ih: "snd (tracker_run frs ?t') = ?t'\<lparr>lost_counter := lost_counter ?t' + int (length frs)\<rparr>
     \<and> (\<forall>i < length frs. lost_counter ?t' + int i + 1 \<le> max_lost_frames ?t' \<longrightarrow>
           fst (tracker_run frs ?t') ! i
           = (if window_degenerate (frs ! i) ?t' then Inr None else ?coast))"
    using Cons.prems
    by (intro Cons.IH) (simp_all add: no_contour_match_counter window_degenerate_counter)
  have s: "snd (tracker_run (fr # frs) t)
           = t\<lparr>lost_counter := lost_counter t + int (length (fr # frs))\<rparr>"
    using ih r by (simp add: add.assoc)
  have f: "fst (tracker_run (fr # frs) t) ! i
           = (if window_degenerate ((fr # frs) ! i) t then Inr None else ?coast)"
    if "i < length (fr # frs)" "lost_counter t + int i + 1 \<le> max_lost_frames t" for i
  proof (cases i)
    case 0
    then show ?thesis using r first that by simp
  next
    case (Suc j)
    then show ?thesis using r ih that by (simp add: window_degenerate_counter)
  qed
  show ?case using s f by blast
qed

text \<open>
  Claim C3, as the code has it. Take an initialised colour tracker with a last position
  and radius, a lost counter of 0 (as \<open>initialize\<close> and every successful update leave it)
  and the ceiling of 30 frames, and feed it 31 frames in each of which no matching
  contour is found: the search window is degenerate and not searched, or it is searched
  without a match. After the 30th frame the tracker is not lost, after the 31st it is
  lost. Each of the first 30 updates whose window is at least 10 pixels wide and high
  returns the last known position and radius, as the integer pixel triple that \<open>update\<close>
  always returns; each of them whose window is degenerate returns none.
\<close>

theorem tracker_lost_after_31:
  assumes "initialized t" "last_position t = Some lp" "last_radius t = Some lr"
    "lost_counter t = 0" "max_lost_frames t = 30"
    "length frs = 31" "\<forall>fr \<in> set frs. window_degenerate fr t \<or> no_contour_match fr t"
  shows "\<not> is_lost (snd (tracker_run (take 30 frs) t))
       \<and> is_lost (snd (tracker_run frs t))
       \<and> (\<forall>i < 30. fst (tracker_run frs t) ! i
                     = (if window_degenerate (frs ! i) t then Inr None
                        else Inr (Some (py_int (fst lp), py_int (snd lp), py_int lr))))"
proof -
  have a: "\<forall>fr \<in> set (take 30 frs). window_degenerate fr t \<or> no_contour_match fr t"
    using assms(7) by (meson in_set_takeD)
  have l: "length (take 30 frs) = 30" using assms(6) by simp
  show ?thesis
    using tracker_run_lost [OF a assms(1,2,3)] tracker_run_lost [OF assms(7,1,2,3)]
      assms(4,5,6) l
    by (simp add: is_lost_def)
qed

theorem tracker_lost_after_31_witness:
  "\<not> is_lost (snd (tracker_run (take 30 (replicate 31 blank_frame))
                    (tracker_initialize 320 240 20 ColorTracker_init)))
  \<and> is_lost (snd (tracker_run (replicate 31 blank_frame)
                  (tracker_initialize 320 240 20 ColorTracker_init)))
  \<and> fst (tracker_run (replicate 31 blank_frame)
            (tracker_initialize 320 240 20 ColorTracker_init)) ! 0 = Inr (Some (320, 240, 20))
  \<and> fst (tracker_run (replicate 31 blank_frame)
            (tracker_initialize 320 240 20 ColorTracker_init)) ! 29 = Inr (Some (320, 240, 20))"
proof -
  let ?t = "tracker_initialize 320 240 20 ColorTracker_init"
  have nm: "no_contour_match blank_frame ?t"
    by (simp add: no_contour_match_def tracker_initialize_def ColorTracker_init_def
          blank_frame_def search_window_def roi_margin_def vadd_def py_int_def Let_def
          TRACKING_SEARCH_MARGIN_def)
  have nd: "\<not> window_degenerate blank_frame ?t"
    by (rule no_contour_match_searched [OF nm])
  have a: "\<forall>fr \<in> set (replicate 31 blank_frame).
             window_degenerate fr ?t \<or> no_contour_match fr ?t"
    using nm by simp
  have i: "initialized ?t" "last_position ?t = Some (320, 240)" "last_radius ?t = Some 20"
     "lost_counter ?t = 0" "max_lost_frames ?t = 30"
    by (simp_all add: tracker_initialize_def ColorTracker_init_def)
  have p: "py_int 320 = 320" "py_int 240 = 240" "py_int 20 = 20" by (simp_all add: py_int_def)
  have l: "length (replicate 31 blank_frame) = 31" by simp
  show ?thesis
    using tracker_lost_after_31 [OF i l a] p nd by simp
qed

text \<open>
  The claim as stated fails for a degenerate window. The tracker \<open>offscreen_tracker\<close> is
  initialised at (-100, -100) with radius 2, so its window in a frame of 640 by 480 is
  (0, 0, -16, -16). In a frame without any contour its first update counts the frame,
  the counter is 1 and the tracker is not lost, and yet the update returns none and not
  the last known position.
\<close>

theorem tracker_offscreen_no_coast:
  "initialized offscreen_tracker
   \<and> lost_counter offscreen_tracker = 0
   \<and> last_position offscreen_tracker = Some (- 100, - 100)
   \<and> search_window blank_frame offscreen_tracker (- 100, - 100) 2 = (0, 0, - 16, - 16)
   \<and> fst (tracker_update blank_frame offscreen_tracker) = Inr None
   \<and> lost_counter (snd (tracker_update blank_frame offscreen_tracker)) = 1
   \<and> \<not> is_lost (snd (tracker_update blank_frame offscreen_tracker))"
proof -
  have w: "search_window blank_frame offscreen_tracker (- 100, - 100) 2 = (0, 0, - 16, - 16)"
    by (simp add: offscreen_tracker_def tracker_initialize_def ColorTracker_init_def
          blank_frame_def search_window_def roi_margin_def vadd_def py_int_def Let_def
          TRACKING_SEARCH_MARGIN_def)
  have i: "initialized offscreen_tracker" "lost_counter offscreen_tracker = 0"
    "last_position offscreen_tracker = Some (- 100, - 100)"
    "last_radius offscreen_tracker = Some 2" "max_lost_frames offscreen_tracker = 30"
    by (simp_all add: offscreen_tracker_def tracker_initialize_def ColorTracker_init_def)
  have d: "window_degenerate blank_frame offscreen_tracker"
    by (simp add: window_degenerate_def i w)
  have u: "tracker_update blank_frame offscreen_tracker
           = (Inr None, offscreen_tracker\<lparr>lost_counter := lost_counter offscreen_tracker + 1\<rparr>)"
    by (rule tracker_update_degenerate [OF d i(1,3,4)])
  show ?thesis
    using w i by (simp add: u is_lost_def)
qed

section \<open>The stages of an update\<close>

lemma check_movement_frame:
  "state (snd (check_movement e)) = state e"
  "celebrating (snd (check_movement e)) = celebrating e"
  "hole_in_time (snd (check_movement e)) = hole_in_time e"
  "celebration_duration (snd (check_movement e)) = celebration_duration e"
  "last_positions (snd (check_movement e)) = last_positions e"
  "max_history (snd (check_movement e)) = max_history e"
  by (simp_all add: check_movement_def Let_def)

lemma record_position_frame:
  "game_over (state (record_position p e)) = game_over (state e)"
  "hole_position (state (record_position p e)) = hole_position (state e)"
  "putts (state (record_position p e)) = putts (state e)"
  "total_score (state (record_position p e)) = total_score (state e)"
  "is_ball_moving (state (record_position p e)) = is_ball_moving (state e)"
  "celebrating (record_position p e) = celebrating e"
  "celebration_duration (record_position p e) = celebration_duration e"
  "stopped_frame_count (record_position p e) = stopped_frame_count e"
  "max_history (record_position p e) = max_history e"
  "hole_distance p (record_position p e) = hole_distance p e"
  by (simp_all add: record_position_def hole_distance_def Let_def split: option.splits)

lemma record_position_distance:
  "hole_position (state e) = Some h \<Longrightarrow>
   distance_to_hole (state (record_position p e)) = Dist (norm2 (vsub p h))"
  by (simp add: record_position_def hole_distance_def Let_def)

lemma record_position_history:
  "last_positions (record_position p e) =
     (if int (length (last_positions e)) + 1 > max_history e
      then last_n (max_history e) (last_positions e @ [p])
      else last_positions e @ [p])"
  by (simp add: record_position_def Let_def split: option.splits)

lemma count_stroke_frame:
  "fst (count_stroke e) = fst (check_movement e)"
  "is_ball_moving (state (snd (count_stroke e))) = fst (check_movement e)"
  "putts (state (snd (count_stroke e))) =
     putts (state e) + (if is_ball_moving (state e) \<and> \<not> fst (check_movement e) then 1 else 0)"
  "game_over (state (snd (count_stroke e))) = game_over (state e)"
  "hole_position (state (snd (count_stroke e))) = hole_position (state e)"
  "total_score (state (snd (count_stroke e))) = total_score (state e)"
  "distance_to_hole (state (snd (count_stroke e))) = distance_to_hole (state e)"
  "celebrating (snd (count_stroke e)) = celebrating e"
  "celebration_duration (snd (count_stroke e)) = celebration_duration e"
  "last_positions (snd (count_stroke e)) = last_positions e"
  "max_history (snd (count_stroke e)) = max_history e"
  "stopped_frame_count (snd (count_stroke e)) = stopped_frame_count (snd (check_movement e))"
  by (simp_all add: count_stroke_def Let_def check_movement_frame)

lemma advance_level_frame:
  "celebrating (advance_level now e) = celebrating e"
  "is_ball_moving (state (advance_level now e)) = is_ball_moving (state e)"
  "distance_to_hole (state (advance_level now e)) = distance_to_hole (state e)"
  by (simp_all add: advance_level_def set_hole_for_level_def Let_def)

lemma update_status_frame:
  "celebrating (update_status now mv d e) = celebrating e"
  "is_ball_moving (state (update_status now mv d e)) = is_ball_moving (state e)"
  "distance_to_hole (state (update_status now mv d e)) = distance_to_hole (state e)"
  by (simp_all add: update_status_def advance_level_frame)

lemma hole_in_frame:
  "celebrating (hole_in now e)"
  "is_hole_in (state (hole_in now e))"
  "hole_in_time (hole_in now e) = now"
  "putts (state (hole_in now e)) = (if putts (state e) = 0 then 1 else putts (state e))"
  "total_score (state (hole_in now e))
     = total_score (state e) + (if putts (state e) = 0 then 1 else putts (state e))"
  "game_over (state (hole_in now e)) = game_over (state e)"
  "is_ball_moving (state (hole_in now e)) = is_ball_moving (state e)"
  "distance_to_hole (state (hole_in now e)) = distance_to_hole (state e)"
  "celebration_duration (hole_in now e) = celebration_duration e"
  by (simp_all add: hole_in_def Let_def)

lemma celebration_update:
  assumes "\<not> game_over (state e)" "celebrating e"
    "now' - hole_in_time e \<le> celebration_duration e"
  shows "engine_update now' pos e
         = e\<lparr>state := (state e)\<lparr>status :=
               StatusCountdown (celebration_duration e - (now' - hole_in_time e))\<rparr>\<rparr>"
  using assms by (simp add: engine_update_def Let_def)

lemma celebration_updates:
  assumes "\<not> game_over (state e)" "celebrating e"
    "\<forall>i \<in> set ins. fst i - hole_in_time e \<le> celebration_duration e"
  shows "\<exists>st. engine_updates ins e = e\<lparr>state := (state e)\<lparr>status := st\<rparr>\<rparr>"
  using assms
proof (induction ins arbitrary: e)
  case Nil
  have "engine_updates [] e = e\<lparr>state := (state e)\<lparr>status := status (state e)\<rparr>\<rparr>"
    by simp
  then show ?case by blast
next
  case (Cons i ins)
  define c where "c = StatusCountdown (celebration_duration e - (fst i - hole_in_time e))"
  define e1 where "e1 = e\<lparr>state := (state e)\<lparr>status := c\<rparr>\<rparr>"
  have u: "engine_update (fst i) (snd i) e = e1"
    using celebration_update [of e "fst i" "snd i"] Cons.prems by (simp add: e1_def c_def)
  have "\<exists>st. engine_updates ins e1 = e1\<lparr>state := (state e1)\<lparr>status := st\<rparr>\<rparr>"
    using Cons.prems by (intro Cons.IH) (simp_all add: e1_def)
  then obtain st where "engine_updates ins e1 = e1\<lparr>state := (state e1)\<lparr>status := st\<rparr>\<rparr>"
    by blast
  then have "engine_updates (i # ins) e = e\<lparr>state := (state e)\<lparr>status := st\<rparr>\<rparr>"
    using u by (simp add: e1_def)
  then show ?case by blast
qed

lemma engine_update_located:
  assumes "\<not> game_over (state e)" "\<not> celebrating e"
  shows "engine_update now (Some p) e =
     (if dist_lt (hole_distance p e) HOLE_IN_TOLERANCE_CM
         \<and> (\<not> fst (check_movement (record_position p e))
              \<or> dist_lt (hole_distance p e) HOLE_RADIUS_CM)
      then hole_in now (snd (count_stroke (record_position p e)))
      else update_status now (fst (check_movement (record_position p e))) (hole_distance p e)
             (snd (count_stroke (record_position p e))))"
  using assms
  by (auto simp add: engine_update_def Let_def record_position_frame count_stroke_frame)

lemma fresh_game_fields:
  "last_positions fresh_game = []" "stopped_frame_count fresh_game = 0"
  "\<not> game_over (state fresh_game)" "\<not> celebrating fresh_game"
  "max_history fresh_game = 30" "hole_position (state fresh_game) = Some (45, 20)"
  "putts (state fresh_game) = 0" "celebration_duration fresh_game = 3"
  "is_ball_moving (state fresh_game) = False" "total_score (state fresh_game) = 0"
  by (simp_all add: fresh_game_def start_game_def MiniGolfEngine_init_def GameState_init_def
        set_hole_for_level_def HOLE_POSITIONS_def BALL_STOPPED_FRAMES_def Let_def)

lemma far_origin: "\<not> dist_lt (hole_distance (0, 0) fresh_game) HOLE_RADIUS_CM"
proof -
  have "(7 / 2)\<^sup>2 \<le> (2425::real)" by (simp add: power2_eq_square)
  then have "7 / 2 \<le> sqrt 2425" by (rule real_le_rsqrt)
  then show ?thesis
    by (simp add: hole_distance_def fresh_game_fields norm2_def vsub_def HOLE_RADIUS_CM_def)
qed

lemma near_hole: "norm2 (vsub (46, 19) (45, 20)) < 7 / 2"
proof -
  have "(2::real) < (7 / 2)\<^sup>2" by (simp add: power2_eq_square)
  then have "sqrt 2 < 7 / 2" by (intro real_less_lsqrt) simp_all
  then show ?thesis by (simp add: norm2_def vsub_def)
qed

section \<open>Hole-in\<close>

text \<open>
  Claim C4. Take an engine in play (not game over, not celebrating) with a hole position
  \<open>hp\<close>, a stroke count that is not negative and the celebration duration 3.0 of
  \<^verbatim>\<open>__init__\<close>, and update it at clock reading \<open>now\<close> with a located position \<open>p\<close>. Let
  \<open>d\<close> be the distance from \<open>p\<close> to \<open>hp\<close>, which the update publishes, and \<open>moving\<close> the
  motion flag it publishes. Hole-in triggers (the engine celebrates afterwards) exactly
  when \<open>d < 4.0\<close> and (not \<open>moving\<close> or \<open>d < 3.5\<close>). When it triggers, the holed flag is set,
  the hole-in time is \<open>now\<close>, the stroke count is the count of this update (with the
  stroke of this update, if the ball just stopped) raised to at least 1, the total score
  grows by that count, and every later update at a clock reading at most 3.0 after \<open>now\<close>,
  with any position or none, changes only the status text, which becomes the countdown;
  so does every sequence of such updates.
\<close>

theorem hole_in_trigger:
  assumes ng: "\<not> game_over (state e)" and nc: "\<not> celebrating e"
    and hp: "hole_position (state e) = Some hp"
    and p0: "0 \<le> putts (state e)" and cd: "celebration_duration e = 3"
  shows "let e' = engine_update now (Some p) e;
             d = norm2 (vsub p hp);
             moving = is_ball_moving (state e');
             strokes = putts (state e) + (if is_ball_moving (state e) \<and> \<not> moving then 1 else 0)
         in distance_to_hole (state e') = Dist d
          \<and> (celebrating e' \<longleftrightarrow> d < 4.0 \<and> (\<not> moving \<or> d < 3.5))
          \<and> (celebrating e' \<longrightarrow>
                is_hole_in (state e') \<and> hole_in_time e' = now
              \<and> putts (state e') = max 1 strokes
              \<and> total_score (state e') = total_score (state e) + max 1 strokes
              \<and> (\<forall>now' pos'. now' - now \<le> 3.0 \<longrightarrow>
                    engine_update now' pos' e'
                    = e'\<lparr>state := (state e')\<lparr>status := StatusCountdown (3.0 - (now' - now))\<rparr>\<rparr>)
              \<and> (\<forall>ins. (\<forall>i \<in> set ins. fst i - now \<le> 3.0) \<longrightarrow>
                    (\<exists>st. engine_updates ins e' = e'\<lparr>state := (state e')\<lparr>status := st\<rparr>\<rparr>)))"
proof -
  define e4 where "e4 = record_position p e"
  define mv where "mv = fst (check_movement e4)"
  define e7 where "e7 = snd (count_stroke e4)"
  define d where "d = norm2 (vsub p hp)"
  have hd: "hole_distance p e = Dist d" using hp by (simp add: hole_distance_def d_def)
  have e7: "is_ball_moving (state e7) = mv" "celebrating e7 = False"
    "distance_to_hole (state e7) = Dist d" "game_over (state e7) = False"
    "putts (state e7) = putts (state e) + (if is_ball_moving (state e) \<and> \<not> mv then 1 else 0)"
    "total_score (state e7) = total_score (state e)" "celebration_duration e7 = 3"
    using ng nc hp cd
    by (simp_all add: e7_def mv_def e4_def d_def count_stroke_frame record_position_frame
          record_position_distance)
  have upd: "engine_update now (Some p) e =
     (if d < 4 \<and> (\<not> mv \<or> d < 3.5) then hole_in now e7
      else update_status now mv (Dist d) e7)"
    using engine_update_located [OF ng nc, of now p]
    by (auto simp add: hd e7_def mv_def e4_def HOLE_IN_TOLERANCE_CM_def HOLE_RADIUS_CM_def)
  show ?thesis
  proof (cases "d < 4 \<and> (\<not> mv \<or> d < 3.5)")
    case True
    have u: "engine_update now (Some p) e = hole_in now e7"
      using upd by (simp only: True if_True simp_thms)
    have pos: "0 \<le> putts (state e7)" using e7(5) p0 by simp
    have cel: "engine_update now' pos' (hole_in now e7)
        = (hole_in now e7)\<lparr>state := (state (hole_in now e7))\<lparr>status :=
             StatusCountdown (3 - (now' - now))\<rparr>\<rparr>" if "now' - now \<le> 3" for now' pos'
      using celebration_update [of "hole_in now e7" now' pos'] that e7
      by (simp add: hole_in_frame)
    have cels: "\<exists>st. engine_updates ins (hole_in now e7)
        = (hole_in now e7)\<lparr>state := (state (hole_in now e7))\<lparr>status := st\<rparr>\<rparr>"
      if "\<forall>i \<in> set ins. fst i - now \<le> 3" for ins
      using celebration_updates [of "hole_in now e7" ins] that e7
      by (simp add: hole_in_frame)
    have mx: "(if putts (state e7) = 0 then 1 else putts (state e7)) = max 1 (putts (state e7))"
      using pos by auto
    show ?thesis
      unfolding Let_def u d_def [symmetric]
      using True e7 cel cels mx by (simp add: hole_in_frame)
  next
    case False
    have u: "engine_update now (Some p) e = update_status now mv (Dist d) e7"
      using upd by (simp only: False if_False simp_thms)
    show ?thesis
      unfolding Let_def u d_def [symmetric]
      using False e7 by (simp add: update_status_frame)
  qed
qed

theorem hole_in_trigger_witness:
  "celebrating (engine_update 10 (Some (46, 19)) fresh_game)
   \<and> is_hole_in (state (engine_update 10 (Some (46, 19)) fresh_game))
   \<and> putts (state (engine_update 10 (Some (46, 19)) fresh_game)) = 1
   \<and> total_score (state (engine_update 10 (Some (46, 19)) fresh_game)) = 1
   \<and> engine_update 11 (Some (20, 20)) (engine_update 10 (Some (46, 19)) fresh_game)
      = (engine_update 10 (Some (46, 19)) fresh_game)
          \<lparr>state := (state (engine_update 10 (Some (46, 19)) fresh_game))
                \<lparr>status := StatusCountdown 2\<rparr>\<rparr>"
proof -
  have p0: "0 \<le> putts (state fresh_game)" by (simp add: fresh_game_fields)
  have t: "(11::real) - 10 \<le> 3" by simp
  show ?thesis
    using hole_in_trigger [OF fresh_game_fields(3,4,6) p0 fresh_game_fields(8), of 10 "(46, 19)"]
      near_hole t
    by (simp add: Let_def fresh_game_fields)
qed

section \<open>A ball that does not move\<close>

lemma norm2_self: "norm2 (vsub p p) = 0"
  by (simp add: norm2_def vsub_def)

lemma max_displacement_replicate: "0 \<le> m \<Longrightarrow> max_displacement m (replicate k p) = m"
proof (induction k arbitrary: m)
  case 0
  then show ?case by simp
next
  case (Suc k)
  show ?case
  proof (cases k)
    case 0
    then show ?thesis by simp
  next
    case (Suc j)
    have "max_displacement m (replicate (Suc k) p)
          = max_displacement (max m (norm2 (vsub p p))) (replicate k p)"
      using Suc by simp
    also have "\<dots> = max_displacement m (replicate k p)"
      using \<open>0 \<le> m\<close> by (simp add: norm2_self)
    also have "\<dots> = m" using Suc.IH \<open>0 \<le> m\<close> by simp
    finally show ?thesis .
  qed
qed

lemma check_movement_still:
  assumes "last_positions e = replicate n p"
  shows "check_movement e =
     (if n < 15 then (True, e)
      else (stopped_frame_count e + 1 < 15, e\<lparr>stopped_frame_count := stopped_frame_count e + 1\<rparr>))"
  using assms
  by (simp add: check_movement_def BALL_STOPPED_FRAMES_def last_n_def Let_def
        max_displacement_replicate BALL_STOPPED_THRESHOLD_CM_def)

lemma update_status_moving:
  "update_status now True d e = e\<lparr>state := (state e)\<lparr>status := StatusMoving d\<rparr>\<rparr>"
  by (simp add: update_status_def)

lemma still_step:
  assumes inv: "still_run p n e" and n: "n < 28"
  shows "still_run p (Suc n) (engine_update t (Some p) e)"
proof -
  let ?e4 = "record_position p e"
  have ng: "\<not> game_over (state e)" and nc: "\<not> celebrating e"
    and mh: "max_history e = 30" and lp: "last_positions e = replicate n p"
    and sc: "stopped_frame_count e = (if n < 15 then 0 else int n - 14)"
    and far: "\<not> dist_lt (hole_distance p e) HOLE_RADIUS_CM"
    using inv by (simp_all add: still_run_def)
  have h4: "last_positions ?e4 = replicate (Suc n) p"
    using lp mh n by (simp add: record_position_history replicate_append_same)
  have cm: "check_movement ?e4 =
     (if Suc n < 15 then (True, ?e4)
      else (stopped_frame_count ?e4 + 1 < 15,
            ?e4\<lparr>stopped_frame_count := stopped_frame_count ?e4 + 1\<rparr>))"
    by (rule check_movement_still [OF h4])
  have mv: "fst (check_movement ?e4)"
    using cm sc n by (simp add: record_position_frame)
  have sc': "stopped_frame_count (snd (check_movement ?e4))
             = (if Suc n < 15 then 0 else int (Suc n) - 14)"
    using cm sc n by (simp add: record_position_frame)
  have upd: "engine_update t (Some p) e
     = (snd (count_stroke ?e4))\<lparr>state := (state (snd (count_stroke ?e4)))
          \<lparr>status := StatusMoving (hole_distance p e)\<rparr>\<rparr>"
    using engine_update_located [OF ng nc, of t p] mv far
    by (simp add: update_status_moving)
  show ?thesis
    unfolding upd still_run_def
    using ng nc mh far h4 sc' mv
    by (simp add: count_stroke_frame record_position_frame hole_distance_def)
qed

lemma still_stop:
  assumes inv: "still_run p n e" and n: "n = 28"
  shows "\<not> is_ball_moving (state (engine_update t (Some p) e))"
proof -
  let ?e4 = "record_position p e"
  have ng: "\<not> game_over (state e)" and nc: "\<not> celebrating e"
    and mh: "max_history e = 30" and lp: "last_positions e = replicate n p"
    and sc: "stopped_frame_count e = 14"
    using inv n by (simp_all add: still_run_def)
  have nlt: "n < 30" using n by simp
  have h4: "last_positions ?e4 = replicate (Suc n) p"
    using lp mh nlt by (simp add: record_position_history replicate_append_same)
  have cm: "check_movement ?e4 =
     (if Suc n < 15 then (True, ?e4)
      else (stopped_frame_count ?e4 + 1 < 15,
            ?e4\<lparr>stopped_frame_count := stopped_frame_count ?e4 + 1\<rparr>))"
    by (rule check_movement_still [OF h4])
  have mv: "\<not> fst (check_movement ?e4)"
    using cm sc n by (simp add: record_position_frame)
  show ?thesis
    using engine_update_located [OF ng nc, of t p] mv
    by (simp add: hole_in_frame update_status_frame count_stroke_frame)
qed

lemma upt_0_Suc_map: "[0..<Suc m] = 0 # map Suc [0..<m]"
  by (simp add: upt_conv_Cons map_Suc_upt del: upt_Suc)

lemma still_trace:
  assumes "still_run p n e" "\<forall>i \<in> set ins. snd i = Some p" "n + length ins \<le> 29"
  shows "moving_trace ins e = map (\<lambda>k. n + k < 28) [0..<length ins]"
  using assms
proof (induction ins arbitrary: n e)
  case Nil
  then show ?case by simp
next
  case (Cons i ins)
  have i: "snd i = Some p" using Cons.prems(2) by simp
  show ?case
  proof (cases "n < 28")
    case True
    let ?e' = "engine_update (fst i) (Some p) e"
    have s: "still_run p (Suc n) ?e'" by (rule still_step [OF Cons.prems(1) True])
    have m: "is_ball_moving (state ?e')" using s by (simp add: still_run_def)
    have ih: "moving_trace ins ?e' = map (\<lambda>k. Suc n + k < 28) [0..<length ins]"
      using Cons.prems by (intro Cons.IH [OF s]) simp_all
    show ?thesis
      using True m ih i
      by (simp add: Let_def upt_0_Suc_map comp_def del: upt_Suc)
  next
    case False
    have n28: "n = 28" using False Cons.prems(3) by simp
    have "length ins = 0" using False Cons.prems(3) by (simp only: length_Cons)
    then have e: "ins = []" by simp
    have "\<not> is_ball_moving (state (engine_update (fst i) (Some p) e))"
      using still_stop Cons.prems(1) n28 by blast
    then show ?thesis using n28 e i by (simp add: Let_def)
  qed
qed

text \<open>
  Claim C1, as the code has it. Take an engine at the start of a level (in play, empty
  history, stillness counter 0, history bound 30 as \<^verbatim>\<open>__init__\<close> sets it) and feed it
  at most 29 updates that all carry the same position \<open>p\<close>, not within the hole radius.
  The motion flag published by update number \<open>k + 1\<close> is true exactly when \<open>k < 28\<close>: the
  first 14 updates fill the window of 15 samples, the next 14 count still windows, and
  the 29th update is the first with 15 consecutive still windows. So the flag is true on
  each of 20 identical positions, and false for the first time on the 29th.
\<close>

theorem still_ball_flags:
  assumes "last_positions e = []" "stopped_frame_count e = 0"
    "\<not> game_over (state e)" "\<not> celebrating e" "max_history e = 30"
    "\<not> dist_lt (hole_distance p e) HOLE_RADIUS_CM"
    "\<forall>i \<in> set ins. snd i = Some p" "length ins \<le> 29"
  shows "moving_trace ins e = map (\<lambda>k. k < 28) [0..<length ins]"
proof -
  have "still_run p 0 e" using assms by (simp add: still_run_def)
  from still_trace [OF this assms(7)] assms(8) show ?thesis by simp
qed

theorem still_ball_flags_witness: "moving_trace (replicate 29 (0, Some (0, 0))) fresh_game = replicate 28 True @ [False]"
proof -
  have a: "\<forall>i \<in> set (replicate 29 (0::real, Some (0::real, 0::real))). snd i = Some (0, 0)"
    by simp
  have l: "length (replicate 29 (0::real, Some (0::real, 0::real))) \<le> 29" by simp
  have m: "map (\<lambda>k. k < 28) [0..<29] = replicate 28 True @ [False]"
    by code_simp
  show ?thesis
    using still_ball_flags [OF fresh_game_fields(1,2,3,4,5) far_origin a l] m by simp
qed

text \<open>
  The claim as stated fails: from the start of a game, with the ball at rest at the
  origin, the flag published by the 15th update is true, as it is for all 20 updates.
\<close>

theorem still_ball_moving_at_frame_15: "moving_trace (replicate 20 (0, Some (0, 0))) fresh_game ! 14 = True
   \<and> moving_trace (replicate 20 (0, Some (0, 0))) fresh_game = replicate 20 True"
proof -
  have s: "still_run (0, 0) 0 fresh_game"
    using far_origin by (simp add: still_run_def fresh_game_fields)
  have a: "\<forall>i \<in> set (replicate 20 (0::real, Some (0::real, 0::real))). snd i = Some (0, 0)"
    by simp
  have l: "0 + length (replicate 20 (0::real, Some (0::real, 0::real))) \<le> 29" by simp
  have m: "map (\<lambda>k. k < 28) [0..<20] = replicate 20 True"
    by code_simp
  have "moving_trace (replicate 20 (0, Some (0, 0))) fresh_game = replicate 20 True"
    using still_trace [OF s a l] m by simp
  then show ?thesis by simp
qed

end
